theory Spec2Isabelle
  imports Complex_Main
begin

section \<open>Invoice actions of the dashboard: \<^verbatim>\<open>app/lib/actions.ts\<close>\<close>

text \<open>
  The module exports four server actions: \<^verbatim>\<open>authenticate\<close>, \<^verbatim>\<open>createInvoice\<close>,
  \<^verbatim>\<open>updateInvoice\<close> and \<^verbatim>\<open>deleteInvoice\<close>. They read a \<^verbatim>\<open>FormData\<close>, validate
  three of its fields with a zod (version 3) object schema, multiply the amount by 100 and
  run one SQL statement. The embedding below follows the file top to bottom; the parts of
  the JavaScript language and of zod that the file calls are modelled first.
\<close>

subsection \<open>JavaScript numbers\<close>

text \<open>
  A JavaScript number is an IEEE 754 binary64 value: not-a-number, the two infinities, the
  two zeros, and the finite non-zero values, which are rationals. \<open>Number 0\<close> is \<open>+0\<close>.
\<close>

datatype jsnumber = NaN | PosInfinity | NegInfinity | NegZero | Number rat

definition pow2 :: "int \<Rightarrow> rat" where
  "pow2 e = (if 0 \<le> e then 2 ^ nat e else 1 / 2 ^ nat (- e))"

definition pow10 :: "int \<Rightarrow> rat" where
  "pow10 e = (if 0 \<le> e then 10 ^ nat e else 1 / 10 ^ nat (- e))"

text \<open>The binary exponent of a positive rational: the \<open>e\<close> with \<open>2^e \<le> x < 2^(e+1)\<close>.\<close>

function floor_log2 :: "rat \<Rightarrow> int" where
  "floor_log2 x =
     (if x \<le> 0 then 0
      else if 2 \<le> x then floor_log2 (x / 2) + 1
      else if x < 1 then floor_log2 (x * 2) - 1
      else 0)"
  by pat_completeness auto

termination floor_log2
proof (relation "measure (\<lambda>x. nat \<lfloor>x\<rfloor> + 2 * nat \<lceil>1 / x\<rceil>)")
  show "wf (measure (\<lambda>x::rat. nat \<lfloor>x\<rfloor> + 2 * nat \<lceil>1 / x\<rceil>))" by simp
next
  fix x :: rat assume a: "\<not> x \<le> 0" "2 \<le> x"
  have "x / 2 \<le> x - 1" using a(2) by simp
  then have "\<lfloor>x / 2\<rfloor> \<le> \<lfloor>x - 1\<rfloor>" by (rule floor_mono)
  then have "\<lfloor>x / 2\<rfloor> \<le> \<lfloor>x\<rfloor> - 1" by simp
  moreover have "2 \<le> \<lfloor>x\<rfloor>" using a(2) by (simp add: le_floor_iff)
  ultimately have f: "nat \<lfloor>x / 2\<rfloor> < nat \<lfloor>x\<rfloor>" by linarith
  have "\<lceil>1 / (x / 2)\<rceil> = 1" "\<lceil>1 / x\<rceil> = 1"
    using a(2) by (simp_all add: ceiling_eq_iff field_simps)
  then show "(x / 2, x) \<in> measure (\<lambda>x. nat \<lfloor>x\<rfloor> + 2 * nat \<lceil>1 / x\<rceil>)"
    using f by simp
next
  fix x :: rat assume a: "\<not> x \<le> 0" "\<not> 2 \<le> x" "x < 1"
  then have p: "0 < x" by simp
  define y where "y = 1 / x"
  have y1: "1 < y" using p a(3) by (simp add: y_def)
  have f1: "\<lfloor>x * 2\<rfloor> \<le> 1" using p a(3) by (simp add: floor_le_iff)
  have f0: "\<lfloor>x\<rfloor> = 0" using p a(3) by (simp add: floor_eq_iff)
  have c0: "0 < \<lceil>1 / (x * 2)\<rceil>" using p by (simp add: less_ceiling_iff)
  have n2: "2 \<le> \<lceil>y\<rceil>" using y1 by (simp add: le_ceiling_iff)
  have "y / 2 \<le> of_int \<lceil>y\<rceil> / 2" using le_of_int_ceiling[of y] by simp
  also have "\<dots> \<le> of_int (\<lceil>y\<rceil> - 1)" using n2 by simp
  finally have "\<lceil>y / 2\<rceil> \<le> \<lceil>y\<rceil> - 1" by (rule ceiling_le)
  then have c1: "\<lceil>1 / (x * 2)\<rceil> + 1 \<le> \<lceil>1 / x\<rceil>"
    by (simp add: y_def mult.commute)
  show "(x * 2, x) \<in> measure (\<lambda>x. nat \<lfloor>x\<rfloor> + 2 * nat \<lceil>1 / x\<rceil>)"
    unfolding in_measure using f1 f0 c0 c1 by linarith
qed

declare floor_log2.simps [simp del]

text \<open>Rounding to the nearest integer, ties to the even one.\<close>

definition round_half_even :: "rat \<Rightarrow> int" where
  "round_half_even y =
     (if y - of_int \<lfloor>y\<rfloor> < 1 / 2 then \<lfloor>y\<rfloor>
      else if 1 / 2 < y - of_int \<lfloor>y\<rfloor> then \<lfloor>y\<rfloor> + 1
      else if even \<lfloor>y\<rfloor> then \<lfloor>y\<rfloor> else \<lfloor>y\<rfloor> + 1)"

text \<open>
  The binary64 value of a real: round to nearest, ties to even, with 53 significant bits,
  the least exponent \<open>-1022\<close> (below it the values are subnormal, with the fixed quantum
  \<open>2^-1074\<close>) and overflow to infinity from \<open>2^1024\<close> on. A negative value that rounds to
  zero is \<open>-0\<close>.
\<close>

definition round_double :: "rat \<Rightarrow> jsnumber" where
  "round_double x =
     (if x = 0 then Number 0
      else
        let a = \<bar>x\<bar>;
            e = max (floor_log2 a) (- 1022);
            ulp = pow2 (e - 52);
            r = of_int (round_half_even (a / ulp)) * ulp
        in if pow2 1024 \<le> r then (if x < 0 then NegInfinity else PosInfinity)
           else if r = 0 then (if x < 0 then NegZero else Number 0)
           else Number (if x < 0 then - r else r))"

fun is_zero :: "jsnumber \<Rightarrow> bool" where
  "is_zero NegZero = True"
| "is_zero (Number r) = (r = 0)"
| "is_zero _ = False"

fun is_infinite :: "jsnumber \<Rightarrow> bool" where
  "is_infinite PosInfinity = True"
| "is_infinite NegInfinity = True"
| "is_infinite _ = False"

fun sign_bit :: "jsnumber \<Rightarrow> bool" where
  "sign_bit NegInfinity = True"
| "sign_bit NegZero = True"
| "sign_bit (Number r) = (r < 0)"
| "sign_bit _ = False"

fun finite_value :: "jsnumber \<Rightarrow> rat" where
  "finite_value (Number r) = r"
| "finite_value _ = 0"

text \<open>The operator \<^verbatim>\<open>*\<close> on two numbers (ECMAScript \<^verbatim>\<open>Number::multiply\<close>).\<close>

definition js_times :: "jsnumber \<Rightarrow> jsnumber \<Rightarrow> jsnumber" where
  "js_times a b =
     (if a = NaN \<or> b = NaN then NaN
      else if (is_infinite a \<and> is_zero b) \<or> (is_zero a \<and> is_infinite b) then NaN
      else if is_infinite a \<or> is_infinite b then
        (if sign_bit a \<noteq> sign_bit b then NegInfinity else PosInfinity)
      else if is_zero a \<or> is_zero b then
        (if sign_bit a \<noteq> sign_bit b then NegZero else Number 0)
      else round_double (finite_value a * finite_value b))"

text \<open>
  The comparison \<^verbatim>\<open>a <= b\<close>: false when either side is \<^verbatim>\<open>NaN\<close>; the two zeros are
  equal.
\<close>

fun js_less :: "jsnumber \<Rightarrow> jsnumber \<Rightarrow> bool" where
  "js_less NaN _ = False"
| "js_less _ NaN = False"
| "js_less PosInfinity _ = False"
| "js_less _ NegInfinity = False"
| "js_less NegInfinity _ = True"
| "js_less _ PosInfinity = True"
| "js_less a b = (finite_value a < finite_value b)"

definition js_le :: "jsnumber \<Rightarrow> jsnumber \<Rightarrow> bool" where
  "js_le a b = (a \<noteq> NaN \<and> b \<noteq> NaN \<and> \<not> js_less b a)"

subsection \<open>Strings to numbers\<close>

text \<open>
  A string is modelled by the bytes of its UTF-8 encoding. \<^verbatim>\<open>Number(s)\<close> on a string is
  ECMAScript's \<^verbatim>\<open>StringToNumber\<close>: white space and line terminators are trimmed on both
  sides, the empty string is \<open>+0\<close>, then the text is a signed decimal literal (digits, an
  optional fraction, an optional exponent, or \<^verbatim>\<open>Infinity\<close>) or an unsigned binary, octal
  or hexadecimal integer literal; anything else is \<^verbatim>\<open>NaN\<close>. The mathematical value of the
  literal is rounded to the nearest binary64 value (ECMAScript lets an engine approximate
  a decimal literal of more than 20 significant digits; the model rounds exactly, as V8
  does).
\<close>

definition is_ws1 :: "char \<Rightarrow> bool" where
  "is_ws1 c = (c \<in> {CHR 0x09, CHR 0x0A, CHR 0x0B, CHR 0x0C, CHR 0x0D, CHR 0x20})"

text \<open>\<^verbatim>\<open>U+00A0\<close> is the one white space character of two bytes.\<close>

definition is_ws2 :: "char \<Rightarrow> char \<Rightarrow> bool" where
  "is_ws2 c1 c2 = (c1 = CHR 0xC2 \<and> c2 = CHR 0xA0)"

text \<open>
  Three bytes: \<^verbatim>\<open>U+1680\<close>, \<^verbatim>\<open>U+2000\<close> to \<^verbatim>\<open>U+200A\<close>, \<^verbatim>\<open>U+2028\<close>, \<^verbatim>\<open>U+2029\<close>,
  \<^verbatim>\<open>U+202F\<close>, \<^verbatim>\<open>U+205F\<close>, \<^verbatim>\<open>U+3000\<close> and \<^verbatim>\<open>U+FEFF\<close>.
\<close>

definition is_ws3 :: "char \<Rightarrow> char \<Rightarrow> char \<Rightarrow> bool" where
  "is_ws3 c1 c2 c3 =
     ((c1 = CHR 0xE1 \<and> c2 = CHR 0x9A \<and> c3 = CHR 0x80) \<or>
      (c1 = CHR 0xE2 \<and> c2 = CHR 0x80 \<and>
         (((128::nat) \<le> of_char c3 \<and> (of_char c3 :: nat) \<le> 138) \<or>
          c3 \<in> {CHR 0xA8, CHR 0xA9, CHR 0xAF})) \<or>
      (c1 = CHR 0xE2 \<and> c2 = CHR 0x81 \<and> c3 = CHR 0x9F) \<or>
      (c1 = CHR 0xE3 \<and> c2 = CHR 0x80 \<and> c3 = CHR 0x80) \<or>
      (c1 = CHR 0xEF \<and> c2 = CHR 0xBB \<and> c3 = CHR 0xBF))"

fun trim_start :: "string \<Rightarrow> string" where
  "trim_start (c1 # c2 # c3 # s) =
     (if is_ws1 c1 then trim_start (c2 # c3 # s)
      else if is_ws2 c1 c2 then trim_start (c3 # s)
      else if is_ws3 c1 c2 c3 then trim_start s
      else c1 # c2 # c3 # s)"
| "trim_start [c1, c2] =
     (if is_ws1 c1 then trim_start [c2]
      else if is_ws2 c1 c2 then []
      else [c1, c2])"
| "trim_start [c1] = (if is_ws1 c1 then [] else [c1])"
| "trim_start [] = []"

text \<open>The same on the reversed string, for the trailing white space.\<close>

fun trim_start_rev :: "string \<Rightarrow> string" where
  "trim_start_rev (c1 # c2 # c3 # s) =
     (if is_ws1 c1 then trim_start_rev (c2 # c3 # s)
      else if is_ws2 c2 c1 then trim_start_rev (c3 # s)
      else if is_ws3 c3 c2 c1 then trim_start_rev s
      else c1 # c2 # c3 # s)"
| "trim_start_rev [c1, c2] =
     (if is_ws1 c1 then trim_start_rev [c2]
      else if is_ws2 c2 c1 then []
      else [c1, c2])"
| "trim_start_rev [c1] = (if is_ws1 c1 then [] else [c1])"
| "trim_start_rev [] = []"

definition trim :: "string \<Rightarrow> string" where
  "trim s = rev (trim_start_rev (rev (trim_start s)))"

definition digit_of :: "nat \<Rightarrow> char \<Rightarrow> nat option" where
  "digit_of base c =
     (let n = (of_char c :: nat);
          v = (if 48 \<le> n \<and> n \<le> 57 then n - 48
               else if 97 \<le> n \<and> n \<le> 102 then n - 87
               else if 65 \<le> n \<and> n \<le> 70 then n - 55
               else base)
      in if v < base then Some v else None)"

definition is_digit :: "char \<Rightarrow> bool" where
  "is_digit c = (digit_of 10 c \<noteq> None)"

definition digits_value :: "nat \<Rightarrow> string \<Rightarrow> int" where
  "digits_value base ds =
     foldl (\<lambda>acc c. acc * int base + (case digit_of base c of Some v \<Rightarrow> int v | None \<Rightarrow> 0))
       0 ds"

text \<open>A non-empty run of digits of the base, and nothing else.\<close>

definition all_digits :: "nat \<Rightarrow> string \<Rightarrow> bool" where
  "all_digits base ds = (ds \<noteq> [] \<and> list_all (\<lambda>c. digit_of base c \<noteq> None) ds)"

text \<open>\<^verbatim>\<open>0b\<close>, \<^verbatim>\<open>0o\<close> and \<^verbatim>\<open>0x\<close> literals (either case of the letter); they take no sign.\<close>

fun non_decimal_literal :: "string \<Rightarrow> int option" where
  "non_decimal_literal (z # b # ds) =
     (if z \<noteq> CHR ''0'' then None
      else if b = CHR ''b'' \<or> b = CHR ''B'' then
        (if all_digits 2 ds then Some (digits_value 2 ds) else None)
      else if b = CHR ''o'' \<or> b = CHR ''O'' then
        (if all_digits 8 ds then Some (digits_value 8 ds) else None)
      else if b = CHR ''x'' \<or> b = CHR ''X'' then
        (if all_digits 16 ds then Some (digits_value 16 ds) else None)
      else None)"
| "non_decimal_literal _ = None"

text \<open>The exponent part: empty, or \<^verbatim>\<open>e\<close> or \<^verbatim>\<open>E\<close>, an optional sign and digits.\<close>

fun exponent_part :: "string \<Rightarrow> int option" where
  "exponent_part [] = Some 0"
| "exponent_part (e # s) =
     (if e \<noteq> CHR ''e'' \<and> e \<noteq> CHR ''E'' then None
      else case s of
        [] \<Rightarrow> None
      | c # ds \<Rightarrow>
          if c = CHR ''+'' then
            (if all_digits 10 ds then Some (digits_value 10 ds) else None)
          else if c = CHR ''-'' then
            (if all_digits 10 ds then Some (- digits_value 10 ds) else None)
          else if all_digits 10 s then Some (digits_value 10 s) else None)"

text \<open>
  An unsigned decimal literal other than \<^verbatim>\<open>Infinity\<close>: its mathematical value. There must
  be a digit before or after the point.
\<close>

definition unsigned_decimal :: "string \<Rightarrow> rat option" where
  "unsigned_decimal s =
     (let ip = takeWhile is_digit s;
          r1 = dropWhile is_digit s;
          has_point = (r1 \<noteq> [] \<and> hd r1 = CHR ''.'');
          fp = (if has_point then takeWhile is_digit (tl r1) else []);
          r2 = (if has_point then dropWhile is_digit (tl r1) else r1)
      in if ip = [] \<and> fp = [] then None
         else case exponent_part r2 of
           None \<Rightarrow> None
         | Some e \<Rightarrow>
             Some (of_int (digits_value 10 (ip @ fp)) * pow10 (e - int (length fp))))"

definition signed_decimal :: "bool \<Rightarrow> string \<Rightarrow> jsnumber" where
  "signed_decimal neg s =
     (if s = ''Infinity'' then (if neg then NegInfinity else PosInfinity)
      else case unsigned_decimal s of
        None \<Rightarrow> NaN
      | Some v \<Rightarrow>
          if v = 0 then (if neg then NegZero else Number 0)
          else round_double (if neg then - v else v))"

definition StringToNumber :: "string \<Rightarrow> jsnumber" where
  "StringToNumber str =
     (let s = trim str
      in case s of
        [] \<Rightarrow> Number 0
      | c # r \<Rightarrow>
          (case non_decimal_literal s of
             Some n \<Rightarrow> round_double (of_int n)
           | None \<Rightarrow>
               if c = CHR ''+'' then signed_decimal False r
               else if c = CHR ''-'' then signed_decimal True r
               else signed_decimal False s))"

subsection \<open>Values and form data\<close>

text \<open>
  The values that reach the schema and the SQL statements. \<^verbatim>\<open>FormData.get\<close> returns the
  first entry of the name, a string or a \<^verbatim>\<open>File\<close>, or \<^verbatim>\<open>null\<close> when there is none.
\<close>

datatype jsvalue = Undefined | Null | Str string | FileObject string | Num jsnumber

datatype entry = Text string | File string

type_synonym FormData = "(string \<times> entry) list"

definition FormData_get :: "FormData \<Rightarrow> string \<Rightarrow> jsvalue" where
  "FormData_get formData name =
     (case map_of formData name of
        None \<Rightarrow> Null
      | Some (Text s) \<Rightarrow> Str s
      | Some (File f) \<Rightarrow> FileObject f)"

text \<open>
  \<^verbatim>\<open>Number(v)\<close>, which is also the conversion that \<^verbatim>\<open>*\<close> applies to its operands. A
  \<^verbatim>\<open>File\<close> converts through its string \<^verbatim>\<open>[object File]\<close>.
\<close>

fun ToNumber :: "jsvalue \<Rightarrow> jsnumber" where
  "ToNumber Undefined = NaN"
| "ToNumber Null = Number 0"
| "ToNumber (Str s) = StringToNumber s"
| "ToNumber (FileObject f) = StringToNumber ''[object File]''"
| "ToNumber (Num n) = n"

text \<open>Reading a property of an object literal: \<^verbatim>\<open>undefined\<close> when the key is absent.\<close>

definition property :: "(string \<times> jsvalue) list \<Rightarrow> string \<Rightarrow> jsvalue" where
  "property obj k = (case map_of obj k of None \<Rightarrow> Undefined | Some v \<Rightarrow> v)"

subsection \<open>The zod schemas\<close>

text \<open>
  The three kinds of schema that \<^verbatim>\<open>FormSchema\<close> is built from, with the options the file
  passes: \<^verbatim>\<open>z.string({invalid_type_error})\<close>, \<^verbatim>\<open>z.coerce.number().gt(v, {message})\<close> and
  \<^verbatim>\<open>z.enum(values, {invalid_type_error})\<close>. Parsing follows zod 3: a schema adds issues,
  each with a code and a message; \<^verbatim>\<open>invalid_type_error\<close> replaces the default message of
  an \<^verbatim>\<open>invalid_type\<close> issue only, and not when the value is \<^verbatim>\<open>undefined\<close>.
\<close>

datatype schema =
    ZString "string option"
  | ZCoerceNumberGt jsnumber string
  | ZEnum "string list" "string option"

datatype issue_code = invalid_type | invalid_enum_value | too_small

datatype issue = Issue (issue_code: issue_code) (issue_path: string) (issue_message: string)

fun parsed_type :: "jsvalue \<Rightarrow> string" where
  "parsed_type Undefined = ''undefined''"
| "parsed_type Null = ''null''"
| "parsed_type (Str s) = ''string''"
| "parsed_type (FileObject f) = ''object''"
| "parsed_type (Num n) = (if n = NaN then ''nan'' else ''number'')"

fun join :: "string \<Rightarrow> string list \<Rightarrow> string" where
  "join sep [] = []"
| "join sep [x] = x"
| "join sep (x # y # xs) = x @ sep @ join sep (y # xs)"

text \<open>A string between two apostrophes, as zod prints the values of an enum.\<close>

definition quoted :: "string \<Rightarrow> string" where
  "quoted s = [CHR 0x27] @ s @ [CHR 0x27]"

definition joinValues :: "string list \<Rightarrow> string" where
  "joinValues vs = join '' | '' (map quoted vs)"

text \<open>
  The message of an \<^verbatim>\<open>invalid_type\<close> issue: zod's default is \<^verbatim>\<open>Required\<close> for
  \<^verbatim>\<open>undefined\<close> and \<^verbatim>\<open>Expected ..., received ...\<close> otherwise.
\<close>

definition invalid_type_message :: "string option \<Rightarrow> string \<Rightarrow> jsvalue \<Rightarrow> string" where
  "invalid_type_message invalid_type_error expected v =
     (if v = Undefined then ''Required''
      else case invalid_type_error of
        Some m \<Rightarrow> m
      | None \<Rightarrow> ''Expected '' @ expected @ '', received '' @ parsed_type v)"

text \<open>
  One field: the issues (code and message) and the parsed value, if the schema produced
  one. The number schema first replaces the input by \<^verbatim>\<open>Number(input)\<close>; \<^verbatim>\<open>NaN\<close> is an
  \<^verbatim>\<open>invalid_type\<close> issue with the default message, and \<^verbatim>\<open>gt\<close> fails when
  \<^verbatim>\<open>input <= value\<close>.
\<close>

fun parse_field :: "schema \<Rightarrow> jsvalue \<Rightarrow> (issue_code \<times> string) list \<times> jsvalue option" where
  "parse_field (ZString invalid_type_error) v =
     (case v of
        Str s \<Rightarrow> ([], Some (Str s))
      | _ \<Rightarrow> ([(invalid_type, invalid_type_message invalid_type_error ''string'' v)], None))"
| "parse_field (ZCoerceNumberGt bound msg) v =
     (let n = ToNumber v
      in if n = NaN then
           ([(invalid_type, invalid_type_message None ''number'' (Num n))], None)
         else if js_le n bound then ([(too_small, msg)], Some (Num n))
         else ([], Some (Num n)))"
| "parse_field (ZEnum values invalid_type_error) v =
     (case v of
        Str s \<Rightarrow>
          if s \<in> set values then ([], Some (Str s))
          else ([(invalid_enum_value,
                  ''Invalid enum value. Expected '' @ joinValues values @
                  '', received '' @ quoted s)], None)
      | _ \<Rightarrow> ([(invalid_type,
                 invalid_type_message invalid_type_error (joinValues values) v)], None))"

type_synonym object_schema = "(string \<times> schema) list"

definition FormSchema :: object_schema where
  "FormSchema =
     [(''id'', ZString None),
      (''customerId'', ZString (Some ''Please select a customer'')),
      (''amount'', ZCoerceNumberGt (Number 0) ''Amount must be greater than 0''),
      (''status'', ZEnum [''pending'', ''paid''] (Some ''Please select a valid status'')),
      (''date'', ZString None)]"

definition omit :: "string list \<Rightarrow> object_schema \<Rightarrow> object_schema" where
  "omit keys shape = filter (\<lambda>(k, sch). k \<notin> set keys) shape"

definition CreateInvoice :: object_schema where
  "CreateInvoice = omit [''id'', ''date''] FormSchema"

definition UpdateInvoice :: object_schema where
  "UpdateInvoice = omit [''id'', ''date''] FormSchema"

text \<open>
  \<^verbatim>\<open>safeParse\<close> of an object schema: every key of the shape is parsed, in the order of the
  shape, and the issues of all of them are collected; keys of the input that the shape
  does not have are dropped.
\<close>

datatype safe_parse_result = Success "(string \<times> jsvalue) list" | Failure "issue list"

definition field_issues :: "object_schema \<Rightarrow> (string \<times> jsvalue) list \<Rightarrow> issue list" where
  "field_issues shape input =
     concat (map (\<lambda>(k, sch). map (\<lambda>(c, m). Issue c k m) (fst (parse_field sch (property input k))))
               shape)"

definition field_values :: "object_schema \<Rightarrow> (string \<times> jsvalue) list \<Rightarrow> (string \<times> jsvalue) list"
  where
  "field_values shape input =
     concat (map (\<lambda>(k, sch). case snd (parse_field sch (property input k)) of
                                 None \<Rightarrow> [] | Some v \<Rightarrow> [(k, v)])
               shape)"

definition safeParse :: "object_schema \<Rightarrow> (string \<times> jsvalue) list \<Rightarrow> safe_parse_result" where
  "safeParse shape input =
     (let issues = field_issues shape input
      in if issues = [] then Success (field_values shape input) else Failure issues)"

text \<open>
  \<^verbatim>\<open>error.flatten().fieldErrors\<close>: the messages of the issues, grouped by the field, in the
  order of the issues.
\<close>

fun add_message :: "(string \<times> string list) list \<Rightarrow> issue \<Rightarrow> (string \<times> string list) list" where
  "add_message [] i = [(issue_path i, [issue_message i])]"
| "add_message ((k, ms) # rest) i =
     (if k = issue_path i then (k, ms @ [issue_message i]) # rest
      else (k, ms) # add_message rest i)"

definition fieldErrors :: "issue list \<Rightarrow> (string \<times> string list) list" where
  "fieldErrors issues = foldl add_message [] issues"

subsection \<open>The store, the cache and the errors\<close>

text \<open>
  A row of the table \<^verbatim>\<open>invoices\<close> holds the values that the statements bind. The three
  statements of the file are the constructors of \<open>statement\<close>, with their parameters in
  the order of the source. The types and constraints of the columns are not part of the
  file, so whether the store refuses a statement is left to the environment; a statement
  that it accepts has the effect that SQL gives it.
\<close>

record invoice =
  inv_id :: string
  customer_id :: jsvalue
  amount :: jsvalue
  status :: jsvalue
  date :: jsvalue

datatype statement =
    INSERT_invoice jsvalue jsvalue jsvalue jsvalue
  | UPDATE_invoice jsvalue jsvalue jsvalue string
  | DELETE_invoice string

datatype js_error =
    Error string
  | AuthError string
  | RedirectError string
  | DatabaseError string

text \<open>
  What an action can observe and change: the rows of the table, the statements sent to the
  store, the paths whose cache was invalidated, and the errors written to the console.
\<close>

record world =
  invoices :: "invoice list"
  issued :: "statement list"
  revalidated :: "string list"
  console :: "js_error list"

datatype 'a completion = Return 'a | Throw js_error

type_synonym 'a action = "world \<Rightarrow> 'a completion \<times> world"

definition return :: "'a \<Rightarrow> 'a action" where
  "return v w = (Return v, w)"

definition throw :: "js_error \<Rightarrow> 'a action" where
  "throw e w = (Throw e, w)"

definition seq :: "'a action \<Rightarrow> ('a \<Rightarrow> 'b action) \<Rightarrow> 'b action" where
  "seq m f w = (case m w of (Return v, w') \<Rightarrow> f v w' | (Throw e, w') \<Rightarrow> (Throw e, w'))"

definition try_catch :: "'a action \<Rightarrow> (js_error \<Rightarrow> 'a action) \<Rightarrow> 'a action" where
  "try_catch body handler w =
     (case body w of (Return v, w') \<Rightarrow> (Return v, w') | (Throw e, w') \<Rightarrow> handler e w')"

text \<open>
  The environment of the module: the store behind \<^verbatim>\<open>sql\<close> (when it refuses a statement,
  and the identifier it gives to an inserted row), the clock behind \<^verbatim>\<open>new Date()\<close> as its
  ISO string, and \<^verbatim>\<open>signIn\<close> of the identity library.
\<close>

record runtime =
  store_error :: "statement \<Rightarrow> invoice list \<Rightarrow> string option"
  store_new_id :: "invoice list \<Rightarrow> string"
  toISOString_now :: string
  signIn :: "string \<Rightarrow> FormData \<Rightarrow> unit action"

fun run_statement :: "runtime \<Rightarrow> statement \<Rightarrow> invoice list \<Rightarrow> invoice list" where
  "run_statement rt (INSERT_invoice c a s d) rows =
     rows @ [\<lparr>inv_id = store_new_id rt rows, customer_id = c, amount = a, status = s, date = d\<rparr>]"
| "run_statement rt (UPDATE_invoice c a s i) rows =
     map (\<lambda>r. if inv_id r = i then r\<lparr>customer_id := c, amount := a, status := s\<rparr> else r) rows"
| "run_statement rt (DELETE_invoice i) rows = filter (\<lambda>r. inv_id r \<noteq> i) rows"

definition sql :: "runtime \<Rightarrow> statement \<Rightarrow> unit action" where
  "sql rt st w =
     (let w' = w\<lparr>issued := issued w @ [st]\<rparr>
      in case store_error rt st (invoices w) of
        Some e \<Rightarrow> (Throw (DatabaseError e), w')
      | None \<Rightarrow> (Return (), w'\<lparr>invoices := run_statement rt st (invoices w)\<rparr>))"

definition revalidatePath :: "string \<Rightarrow> unit action" where
  "revalidatePath path w = (Return (), w\<lparr>revalidated := revalidated w @ [path]\<rparr>)"

definition redirect :: "string \<Rightarrow> 'a action" where
  "redirect path = throw (RedirectError path)"

definition console_error :: "js_error \<Rightarrow> unit action" where
  "console_error e w = (Return (), w\<lparr>console := console w @ [e]\<rparr>)"

subsection \<open>The actions\<close>

text \<open>\<^verbatim>\<open>authenticate\<close> returns a message, or nothing when \<^verbatim>\<open>signIn\<close> returns.\<close>

definition authenticate :: "runtime \<Rightarrow> string option \<Rightarrow> FormData \<Rightarrow> string option action" where
  "authenticate rt prevState formData =
     try_catch (seq (signIn rt ''credentials'' formData) (\<lambda>_. return None))
       (\<lambda>error. case error of
          AuthError type \<Rightarrow>
            if type = ''CredentialsSignin'' then return (Some ''Invalid credentials.'')
            else return (Some ''Someting went wrong'')
        | _ \<Rightarrow> throw error)"

record State =
  errors :: "(string \<times> string list) list option"
  message :: "string option"

definition createInvoice :: "runtime \<Rightarrow> State \<Rightarrow> FormData \<Rightarrow> State action" where
  "createInvoice rt prevState formData =
     (case safeParse CreateInvoice
             [(''customerId'', FormData_get formData ''customerId''),
              (''amount'', FormData_get formData ''amount''),
              (''status'', FormData_get formData ''status'')] of
        Failure issues \<Rightarrow>
          return \<lparr>errors = Some (fieldErrors issues),
                  message = Some ''Missing Fields. Failed to Create Invoice.''\<rparr>
      | Success data \<Rightarrow>
          (let customerId = property data ''customerId'';
               amount = property data ''amount'';
               status = property data ''status'';
               amountInCents = Num (js_times (ToNumber amount) (Number 100));
               date = Str (takeWhile (\<lambda>c. c \<noteq> CHR ''T'') (toISOString_now rt))
           in seq (try_catch
                     (seq (sql rt (INSERT_invoice customerId amountInCents status date))
                        (\<lambda>_. return None))
                     (\<lambda>error. seq (console_error error)
                        (\<lambda>_. return (Some \<lparr>errors = None, message = Some ''Database error''\<rparr>))))
                (\<lambda>returned. case returned of
                   Some state \<Rightarrow> return state
                 | None \<Rightarrow>
                     seq (revalidatePath ''/dashboard/invoices'')
                       (\<lambda>_. redirect ''/dashboard/invoices''))))"

definition updateInvoice :: "runtime \<Rightarrow> string \<Rightarrow> State \<Rightarrow> FormData \<Rightarrow> State action" where
  "updateInvoice rt id' prevState formData =
     (case safeParse UpdateInvoice
             [(''customerId'', FormData_get formData ''customerId''),
              (''amount'', FormData_get formData ''amount''),
              (''status'', FormData_get formData ''status'')] of
        Failure issues \<Rightarrow>
          return \<lparr>errors = Some (fieldErrors issues),
                  message = Some ''Missing Fields. Failed to Update Invoice.''\<rparr>
      | Success data \<Rightarrow>
          (let customerId = property data ''customerId'';
               amount = property data ''amount'';
               status = property data ''status'';
               amountInCents = Num (js_times (ToNumber amount) (Number 100))
           in seq (try_catch
                     (seq (sql rt (UPDATE_invoice customerId amountInCents status id'))
                        (\<lambda>_. return None))
                     (\<lambda>error. seq (console_error error)
                        (\<lambda>_. return (Some \<lparr>errors = None,
                                              message = Some ''Database error: Faild to Update''\<rparr>))))
                (\<lambda>returned. case returned of
                   Some state \<Rightarrow> return state
                 | None \<Rightarrow>
                     seq (revalidatePath ''/dashboard/invoices'')
                       (\<lambda>_. redirect ''/dashboard/invoices''))))"

text \<open>
  The \<^verbatim>\<open>throw\<close> is the first statement of \<^verbatim>\<open>deleteInvoice\<close>; the delete statement and the
  cache invalidation follow it in the source.
\<close>

definition deleteInvoice :: "runtime \<Rightarrow> string \<Rightarrow> unit action" where
  "deleteInvoice rt id' =
     seq (throw (Error ''Faild to Delete'') :: unit action)
       (\<lambda>_. seq (sql rt (DELETE_invoice id'))
          (\<lambda>_. revalidatePath ''/dashboard/invoices''))"

subsection \<open>Notions used to state the properties\<close>

text \<open>The object literal that \<^verbatim>\<open>createInvoice\<close> and \<^verbatim>\<open>updateInvoice\<close> pass to \<^verbatim>\<open>safeParse\<close>.\<close>

definition submitted :: "FormData \<Rightarrow> (string \<times> jsvalue) list" where
  "submitted formData =
     [(''customerId'', FormData_get formData ''customerId''),
      (''amount'', FormData_get formData ''amount''),
      (''status'', FormData_get formData ''status'')]"

text \<open>The messages of a field in the \<^verbatim>\<open>errors\<close> object of a returned state, if it has the key.\<close>

fun field_error :: "State completion \<Rightarrow> string \<Rightarrow> string list option" where
  "field_error (Return st) k = (case errors st of None \<Rightarrow> None | Some errs \<Rightarrow> map_of errs k)"
| "field_error (Throw e) k = None"

text \<open>A field of the shape fails when its schema adds an issue for the submitted value.\<close>

definition field_fails :: "object_schema \<Rightarrow> (string \<times> jsvalue) list \<Rightarrow> string \<Rightarrow> bool" where
  "field_fails shape input k =
     (case map_of shape k of
        None \<Rightarrow> False
      | Some sch \<Rightarrow> fst (parse_field sch (property input k)) \<noteq> [])"

text \<open>The statements that the two actions build from the parsed data.\<close>

definition insert_statement :: "runtime \<Rightarrow> (string \<times> jsvalue) list \<Rightarrow> statement" where
  "insert_statement rt data =
     INSERT_invoice (property data ''customerId'')
       (Num (js_times (ToNumber (property data ''amount'')) (Number 100)))
       (property data ''status'')
       (Str (takeWhile (\<lambda>c. c \<noteq> CHR ''T'') (toISOString_now rt)))"

definition update_statement :: "string \<Rightarrow> (string \<times> jsvalue) list \<Rightarrow> statement" where
  "update_statement i data =
     UPDATE_invoice (property data ''customerId'')
       (Num (js_times (ToNumber (property data ''amount'')) (Number 100)))
       (property data ''status'') i"



text \<open>
  A concrete environment for the examples: a store that accepts every statement, one that
  refuses every statement, a table of one row, and a form with the three fields.
\<close>

definition example_runtime :: runtime where
  "example_runtime =
     \<lparr>store_error = (\<lambda>st rows. None),
      store_new_id = (\<lambda>rows. ''inv_2''),
      toISOString_now = ''2024-05-06T07:08:09.123Z'',
      signIn = (\<lambda>provider formData. throw (AuthError ''CallbackRouteError''))\<rparr>"

definition failing_runtime :: runtime where
  "failing_runtime = example_runtime\<lparr>store_error := (\<lambda>st rows. Some ''connection lost'')\<rparr>"

definition example_world :: world where
  "example_world =
     \<lparr>invoices =
        [\<lparr>inv_id = ''inv_1'', customer_id = Str ''c0'', amount = Num (Number 500),
          status = Str ''paid'', date = Str ''2023-01-02''\<rparr>],
      issued = [], revalidated = [], console = []\<rparr>"

definition no_state :: State where
  "no_state = \<lparr>errors = None, message = None\<rparr>"

definition example_form :: "string \<Rightarrow> string \<Rightarrow> FormData" where
  "example_form amount_text status_text =
     [(''customerId'', Text ''c1''), (''amount'', Text amount_text), (''status'', Text status_text)]"

section \<open>Properties\<close>

subsection \<open>The schema and its issues\<close>

lemma CreateInvoice_shape:
  "CreateInvoice =
     [(''customerId'', ZString (Some ''Please select a customer'')),
      (''amount'', ZCoerceNumberGt (Number 0) ''Amount must be greater than 0''),
      (''status'', ZEnum [''pending'', ''paid''] (Some ''Please select a valid status''))]"
  by (simp add: CreateInvoice_def omit_def FormSchema_def)

lemma UpdateInvoice_shape: "UpdateInvoice = CreateInvoice"
  by (simp add: CreateInvoice_def UpdateInvoice_def)

lemma property_submitted:
  "property (submitted fd) ''customerId'' = FormData_get fd ''customerId''"
  "property (submitted fd) ''amount'' = FormData_get fd ''amount''"
  "property (submitted fd) ''status'' = FormData_get fd ''status''"
  by (simp_all add: property_def submitted_def)

text \<open>The issue that the status schema adds for a value other than the two of the enum.\<close>

lemma FormData_get_defined: "FormData_get fd k \<noteq> Undefined"
  by (simp add: FormData_get_def split: option.splits entry.splits)

lemma field_issues_CreateInvoice:
  "field_issues CreateInvoice (submitted fd) =
     map (\<lambda>(c, m). Issue c ''customerId'' m)
       (fst (parse_field (ZString (Some ''Please select a customer'')) (FormData_get fd ''customerId''))) @
     map (\<lambda>(c, m). Issue c ''amount'' m)
       (fst (parse_field (ZCoerceNumberGt (Number 0) ''Amount must be greater than 0'') (FormData_get fd ''amount''))) @
     map (\<lambda>(c, m). Issue c ''status'' m)
       (fst (parse_field (ZEnum [''pending'', ''paid''] (Some ''Please select a valid status'')) (FormData_get fd ''status'')))"
  by (simp add: field_issues_def CreateInvoice_shape property_submitted)

lemma field_values_CreateInvoice:
  "field_values CreateInvoice (submitted fd) =
     (case snd (parse_field (ZString (Some ''Please select a customer'')) (FormData_get fd ''customerId'')) of
        None \<Rightarrow> [] | Some v \<Rightarrow> [(''customerId'', v)]) @
     (case snd (parse_field (ZCoerceNumberGt (Number 0) ''Amount must be greater than 0'') (FormData_get fd ''amount'')) of
        None \<Rightarrow> [] | Some v \<Rightarrow> [(''amount'', v)]) @
     (case snd (parse_field (ZEnum [''pending'', ''paid''] (Some ''Please select a valid status'')) (FormData_get fd ''status'')) of
        None \<Rightarrow> [] | Some v \<Rightarrow> [(''status'', v)])"
  by (simp add: field_values_def CreateInvoice_shape property_submitted)

lemma safeParse_Success_iff:
  "safeParse CreateInvoice (submitted fd) = Success data \<longleftrightarrow>
     (\<exists>c s. FormData_get fd ''customerId'' = Str c \<and>
            ToNumber (FormData_get fd ''amount'') \<noteq> NaN \<and>
            \<not> js_le (ToNumber (FormData_get fd ''amount'')) (Number 0) \<and>
            FormData_get fd ''status'' = Str s \<and> (s = ''pending'' \<or> s = ''paid'') \<and>
            data = [(''customerId'', Str c),
                    (''amount'', Num (ToNumber (FormData_get fd ''amount''))),
                    (''status'', Str s)])"
  unfolding safeParse_def field_issues_CreateInvoice field_values_CreateInvoice
  by (auto simp add: Let_def split: jsvalue.splits)

lemma safeParse_Failure:
  assumes "field_issues CreateInvoice (submitted fd) \<noteq> []"
  shows "safeParse CreateInvoice (submitted fd) = Failure (field_issues CreateInvoice (submitted fd))"
  using assms by (simp add: safeParse_def)

lemma safeParse_cases:
  obtains issues where "safeParse CreateInvoice (submitted fd) = Failure issues"
  | data where "safeParse CreateInvoice (submitted fd) = Success data"
  by (cases "safeParse CreateInvoice (submitted fd)") auto

lemma Success_data:
  assumes "safeParse CreateInvoice (submitted fd) = Success data"
  shows "property data ''customerId'' = FormData_get fd ''customerId''"
    and "property data ''amount'' = Num (ToNumber (FormData_get fd ''amount''))"
    and "property data ''status'' = FormData_get fd ''status''"
  using assms by (auto simp add: safeParse_Success_iff property_def)

lemma path_filter_customerId:
  "filter (\<lambda>i. issue_path i = ''customerId'') (field_issues CreateInvoice (submitted fd)) =
     map (\<lambda>(c, m). Issue c ''customerId'' m)
       (fst (parse_field (ZString (Some ''Please select a customer''))
               (FormData_get fd ''customerId'')))"
  by (simp add: field_issues_CreateInvoice filter_map o_def split_def)

lemma path_filter_amount:
  "filter (\<lambda>i. issue_path i = ''amount'') (field_issues CreateInvoice (submitted fd)) =
     map (\<lambda>(c, m). Issue c ''amount'' m)
       (fst (parse_field (ZCoerceNumberGt (Number 0) ''Amount must be greater than 0'')
               (FormData_get fd ''amount'')))"
  by (simp add: field_issues_CreateInvoice filter_map o_def split_def)

lemma path_filter_status:
  "filter (\<lambda>i. issue_path i = ''status'') (field_issues CreateInvoice (submitted fd)) =
     map (\<lambda>(c, m). Issue c ''status'' m)
       (fst (parse_field (ZEnum [''pending'', ''paid''] (Some ''Please select a valid status''))
               (FormData_get fd ''status'')))"
  by (simp add: field_issues_CreateInvoice filter_map o_def split_def)

lemma path_filter_other:
  assumes "k \<noteq> ''customerId''" "k \<noteq> ''amount''" "k \<noteq> ''status''"
  shows "filter (\<lambda>i. issue_path i = k) (field_issues CreateInvoice (submitted fd)) = []"
  using assms by (auto simp add: field_issues_CreateInvoice filter_empty_conv)

lemma customerId_missing_issues:
  "fst (parse_field (ZString (Some ''Please select a customer'')) Null) =
     [(invalid_type, ''Please select a customer'')]"
  by (simp add: invalid_type_message_def)

lemma amount_too_small_issues:
  assumes "js_le (ToNumber (FormData_get fd ''amount'')) (Number 0)"
  shows "fst (parse_field (ZCoerceNumberGt (Number 0) ''Amount must be greater than 0'')
                (FormData_get fd ''amount'')) =
           [(too_small, ''Amount must be greater than 0'')]"
  using assms by (simp add: js_le_def Let_def)

lemma joinValues_status: "joinValues [''pending'', ''paid''] = quoted ''pending'' @ '' | '' @ quoted ''paid''"
  by (simp add: joinValues_def)

lemma status_issues:
  assumes "v \<noteq> Str ''pending''" "v \<noteq> Str ''paid''" "v \<noteq> Undefined"
  shows "fst (parse_field (ZEnum [''pending'', ''paid''] (Some ''Please select a valid status'')) v) =
           (case v of
              Str s \<Rightarrow>
                [(invalid_enum_value,
                  ''Invalid enum value. Expected '' @ quoted ''pending'' @ '' | '' @
                  quoted ''paid'' @ '', received '' @ quoted s)]
            | _ \<Rightarrow> [(invalid_type, ''Please select a valid status'')])"
  using assms
  by (cases v) (simp_all add: joinValues_status invalid_type_message_def)

lemma field_fails_CreateInvoice:
  "field_fails CreateInvoice (submitted fd) ''customerId'' \<longleftrightarrow>
     fst (parse_field (ZString (Some ''Please select a customer'')) (FormData_get fd ''customerId'')) \<noteq> []"
  "field_fails CreateInvoice (submitted fd) ''amount'' \<longleftrightarrow>
     fst (parse_field (ZCoerceNumberGt (Number 0) ''Amount must be greater than 0'') (FormData_get fd ''amount'')) \<noteq> []"
  "field_fails CreateInvoice (submitted fd) ''status'' \<longleftrightarrow>
     fst (parse_field (ZEnum [''pending'', ''paid''] (Some ''Please select a valid status'')) (FormData_get fd ''status'')) \<noteq> []"
  "k \<noteq> ''customerId'' \<Longrightarrow> k \<noteq> ''amount'' \<Longrightarrow> k \<noteq> ''status'' \<Longrightarrow>
     \<not> field_fails CreateInvoice (submitted fd) k"
  by (simp_all add: field_fails_def CreateInvoice_shape property_submitted del: parse_field.simps)

lemma field_fails_iff:
  "field_fails CreateInvoice (submitted fd) k \<longleftrightarrow>
     filter (\<lambda>i. issue_path i = k) (field_issues CreateInvoice (submitted fd)) \<noteq> []"
proof -
  consider "k = ''customerId''" | "k = ''amount''" | "k = ''status''"
    | "k \<noteq> ''customerId''" "k \<noteq> ''amount''" "k \<noteq> ''status''"
    by blast
  then show ?thesis
  proof cases
    case 1
    show ?thesis unfolding 1 path_filter_customerId field_fails_CreateInvoice by simp
  next
    case 2
    show ?thesis unfolding 2 path_filter_amount field_fails_CreateInvoice by simp
  next
    case 3
    show ?thesis unfolding 3 path_filter_status field_fails_CreateInvoice by simp
  next
    case 4
    then show ?thesis by (simp add: field_fails_CreateInvoice(4) path_filter_other)
  qed
qed

subsection \<open>The field errors of a failed parse\<close>

lemma map_of_add_message:
  "map_of (add_message al i) k =
     (if k = issue_path i
      then Some ((case map_of al k of None \<Rightarrow> [] | Some ms \<Rightarrow> ms) @ [issue_message i])
      else map_of al k)"
  by (induction al i rule: add_message.induct) auto

lemma map_of_foldl_add_message:
  "map_of (foldl add_message al is) k =
     (if filter (\<lambda>i. issue_path i = k) is = [] then map_of al k
      else Some ((case map_of al k of None \<Rightarrow> [] | Some ms \<Rightarrow> ms) @
                 map issue_message (filter (\<lambda>i. issue_path i = k) is)))"
proof (induction "is" arbitrary: al)
  case Nil
  then show ?case by simp
next
  case (Cons i "is")
  show ?case
    by (simp add: Cons.IH map_of_add_message split: option.splits)
qed

lemma map_of_fieldErrors:
  "map_of (fieldErrors is) k =
     (if filter (\<lambda>i. issue_path i = k) is = [] then None
      else Some (map issue_message (filter (\<lambda>i. issue_path i = k) is)))"
  by (simp add: fieldErrors_def map_of_foldl_add_message)

subsection \<open>The two branches of the writers\<close>

lemma createInvoice_Failure:
  assumes "safeParse CreateInvoice (submitted fd) = Failure issues"
  shows "createInvoice rt ps fd w =
           (Return \<lparr>errors = Some (fieldErrors issues),
                    message = Some ''Missing Fields. Failed to Create Invoice.''\<rparr>, w)"
  using assms by (simp add: createInvoice_def submitted_def return_def)

lemma updateInvoice_Failure:
  assumes "safeParse CreateInvoice (submitted fd) = Failure issues"
  shows "updateInvoice rt i ps fd w =
           (Return \<lparr>errors = Some (fieldErrors issues),
                    message = Some ''Missing Fields. Failed to Update Invoice.''\<rparr>, w)"
  using assms by (simp add: updateInvoice_def UpdateInvoice_shape submitted_def return_def)

lemma createInvoice_Success:
  assumes "safeParse CreateInvoice (submitted fd) = Success data"
  shows "createInvoice rt ps fd w =
           (case store_error rt (insert_statement rt data) (invoices w) of
              Some e \<Rightarrow>
                (Return \<lparr>errors = None, message = Some ''Database error''\<rparr>,
                 w\<lparr>issued := issued w @ [insert_statement rt data],
                   console := console w @ [DatabaseError e]\<rparr>)
            | None \<Rightarrow>
                (Throw (RedirectError ''/dashboard/invoices''),
                 w\<lparr>issued := issued w @ [insert_statement rt data],
                   invoices := run_statement rt (insert_statement rt data) (invoices w),
                   revalidated := revalidated w @ [''/dashboard/invoices'']\<rparr>))"
  using assms
  by (simp add: createInvoice_def submitted_def insert_statement_def Let_def seq_def
      try_catch_def sql_def return_def console_error_def revalidatePath_def redirect_def
      throw_def split: option.splits)

lemma updateInvoice_Success:
  assumes "safeParse CreateInvoice (submitted fd) = Success data"
  shows "updateInvoice rt i ps fd w =
           (case store_error rt (update_statement i data) (invoices w) of
              Some e \<Rightarrow>
                (Return \<lparr>errors = None, message = Some ''Database error: Faild to Update''\<rparr>,
                 w\<lparr>issued := issued w @ [update_statement i data],
                   console := console w @ [DatabaseError e]\<rparr>)
            | None \<Rightarrow>
                (Throw (RedirectError ''/dashboard/invoices''),
                 w\<lparr>issued := issued w @ [update_statement i data],
                   invoices := run_statement rt (update_statement i data) (invoices w),
                   revalidated := revalidated w @ [''/dashboard/invoices'']\<rparr>))"
  using assms
  by (simp add: updateInvoice_def UpdateInvoice_shape submitted_def update_statement_def Let_def
      seq_def try_catch_def sql_def return_def console_error_def revalidatePath_def redirect_def
      throw_def split: option.splits)

lemma field_error_of_failure:
  assumes "filter (\<lambda>i. issue_path i = k) (field_issues CreateInvoice (submitted fd)) = is"
    and "is \<noteq> []"
  shows "field_error (fst (createInvoice rt ps fd w)) k = Some (map issue_message is)"
    and "field_error (fst (updateInvoice rt i ps fd w)) k = Some (map issue_message is)"
proof -
  let ?issues = "field_issues CreateInvoice (submitted fd)"
  have "?issues \<noteq> []" using assms by auto
  then have fail: "safeParse CreateInvoice (submitted fd) = Failure ?issues"
    by (rule safeParse_Failure)
  have m: "map_of (fieldErrors ?issues) k = Some (map issue_message is)"
    using assms by (simp add: map_of_fieldErrors)
  show "field_error (fst (createInvoice rt ps fd w)) k = Some (map issue_message is)"
    by (simp add: createInvoice_Failure[OF fail] m)
  show "field_error (fst (updateInvoice rt i ps fd w)) k = Some (map issue_message is)"
    by (simp add: updateInvoice_Failure[OF fail] m)
qed

lemma issued_createInvoice:
  "issued (snd (createInvoice rt ps fd w)) =
     (case safeParse CreateInvoice (submitted fd) of
        Failure issues \<Rightarrow> issued w
      | Success data \<Rightarrow> issued w @ [insert_statement rt data])"
proof (cases rule: safeParse_cases[of fd])
  case (1 issues)
  then show ?thesis by (simp add: createInvoice_Failure)
next
  case (2 data)
  then show ?thesis by (simp add: createInvoice_Success split: option.splits)
qed

lemma issued_updateInvoice:
  "issued (snd (updateInvoice rt i ps fd w)) =
     (case safeParse CreateInvoice (submitted fd) of
        Failure issues \<Rightarrow> issued w
      | Success data \<Rightarrow> issued w @ [update_statement i data])"
proof (cases rule: safeParse_cases[of fd])
  case (1 issues)
  then show ?thesis by (simp add: updateInvoice_Failure)
next
  case (2 data)
  then show ?thesis by (simp add: updateInvoice_Success split: option.splits)
qed

lemma invoices_updateInvoice_accepted:
  assumes "issued (snd (updateInvoice rt i ps fd w)) = issued w @ [st]"
    and "store_error rt st (invoices w) = None"
  shows "invoices (snd (updateInvoice rt i ps fd w)) =
           map (\<lambda>r. if inv_id r = i
                     then r\<lparr>customer_id := FormData_get fd ''customerId'',
                           amount := Num (js_times (ToNumber (FormData_get fd ''amount'')) (Number 100)),
                           status := FormData_get fd ''status''\<rparr>
                     else r) (invoices w)"
proof (cases rule: safeParse_cases[of fd])
  case (1 issues)
  then show ?thesis using assms(1) by (simp add: issued_updateInvoice)
next
  case (2 data)
  then have st: "st = update_statement i data"
    using assms(1) by (simp add: issued_updateInvoice)
  show ?thesis
    using assms(2) unfolding st
    by (simp add: updateInvoice_Success[OF 2] update_statement_def Success_data[OF 2])
qed

subsection \<open>The cases of the authenticator\<close>

lemma authenticate_result:
  "authenticate rt prevState formData w =
     (case signIn rt ''credentials'' formData w of
        (Return u, w') \<Rightarrow> (Return None, w')
      | (Throw (AuthError type), w') \<Rightarrow>
          (Return (Some (if type = ''CredentialsSignin'' then ''Invalid credentials.''
                         else ''Someting went wrong'')), w')
      | (Throw e, w') \<Rightarrow> (Throw e, w'))"
  by (simp add: authenticate_def try_catch_def seq_def return_def throw_def
      split: prod.splits completion.splits js_error.splits)

subsection \<open>Evaluation of the examples\<close>

lemma floor_rat_numeral: "\<lfloor>numeral a / numeral b :: rat\<rfloor> = numeral a div numeral b"
  using floor_divide_of_int_eq[of "numeral a" "numeral b", where ?'a = rat] by simp

lemmas number_eval = floor_log2.simps pow2_def pow10_def round_half_even_def floor_rat_numeral

lemmas string_eval = trim_def is_ws1_def is_ws2_def is_ws3_def all_digits_def digits_value_def
  digit_of_def is_digit_def


lemma StringToNumber_empty: "StringToNumber '''' = Number 0"
  by (simp add: StringToNumber_def trim_def)

lemma StringToNumber_12_34:
  "StringToNumber ''12.34'' = Number (3473401212609495 / 281474976710656)"
  unfolding StringToNumber_def signed_decimal_def unsigned_decimal_def round_double_def Let_def
  by (simp add: string_eval number_eval)

lemma times_100_12_34:
  "js_times (Number (3473401212609495 / 281474976710656)) (Number 100) = Number 1234"
  unfolding js_times_def round_double_def Let_def
  by (simp add: number_eval)



lemma FormData_get_example_form:
  "FormData_get (example_form a s) ''customerId'' = Str ''c1''"
  "FormData_get (example_form a s) ''amount'' = Str a"
  "FormData_get (example_form a s) ''status'' = Str s"
  by (simp_all add: FormData_get_def example_form_def)

lemma safeParse_example_12_34:
  "safeParse CreateInvoice (submitted (example_form ''12.34'' ''pending'')) =
     Success [(''customerId'', Str ''c1''),
              (''amount'', Num (Number (3473401212609495 / 281474976710656))),
              (''status'', Str ''pending'')]"
  by (simp add: safeParse_Success_iff FormData_get_example_form StringToNumber_12_34 js_le_def)


lemma createInvoice_example_accepted:
  "createInvoice example_runtime no_state (example_form ''12.34'' ''pending'') example_world =
     (Throw (RedirectError ''/dashboard/invoices''),
      \<lparr>invoices =
         [\<lparr>inv_id = ''inv_1'', customer_id = Str ''c0'', amount = Num (Number 500),
           status = Str ''paid'', date = Str ''2023-01-02''\<rparr>,
          \<lparr>inv_id = ''inv_2'', customer_id = Str ''c1'', amount = Num (Number 1234),
           status = Str ''pending'', date = Str ''2024-05-06''\<rparr>],
       issued = [INSERT_invoice (Str ''c1'') (Num (Number 1234)) (Str ''pending'') (Str ''2024-05-06'')],
       revalidated = [''/dashboard/invoices''], console = []\<rparr>)"
  by (simp add: createInvoice_Success[OF safeParse_example_12_34] insert_statement_def
      property_def times_100_12_34 example_runtime_def example_world_def)

lemma createInvoice_example_refused:
  "createInvoice failing_runtime no_state (example_form ''12.34'' ''pending'') example_world =
     (Return \<lparr>errors = None, message = Some ''Database error''\<rparr>,
      example_world\<lparr>issued := issued example_world @
          [INSERT_invoice (Str ''c1'') (Num (Number 1234)) (Str ''pending'') (Str ''2024-05-06'')],
        console := console example_world @ [DatabaseError ''connection lost'']\<rparr>)"
  by (simp add: createInvoice_Success[OF safeParse_example_12_34] insert_statement_def
      property_def times_100_12_34 failing_runtime_def example_runtime_def)

lemma updateInvoice_example_accepted:
  "updateInvoice example_runtime ''inv_1'' no_state (example_form ''12.34'' ''pending'') example_world =
     (Throw (RedirectError ''/dashboard/invoices''),
      \<lparr>invoices =
         [\<lparr>inv_id = ''inv_1'', customer_id = Str ''c1'', amount = Num (Number 1234),
           status = Str ''pending'', date = Str ''2023-01-02''\<rparr>],
       issued = [UPDATE_invoice (Str ''c1'') (Num (Number 1234)) (Str ''pending'') ''inv_1''],
       revalidated = [''/dashboard/invoices''], console = []\<rparr>)"
  by (simp add: updateInvoice_Success[OF safeParse_example_12_34] update_statement_def
      property_def times_100_12_34 example_runtime_def example_world_def)

subsection \<open>The amount in cents\<close>




subsection \<open>Rejected statuses\<close>

text \<open>
  Claim C2, as amended. When the status field is neither \<^verbatim>\<open>pending\<close> nor \<^verbatim>\<open>paid\<close>, both
  actions return an \<^verbatim>\<open>errors\<close> object whose \<^verbatim>\<open>status\<close> entry holds one message. The
  message is \<^verbatim>\<open>Please select a valid status\<close> when the field is absent or is not a string
  (the option \<^verbatim>\<open>invalid_type_error\<close> of the schema); for a string outside the enum it is
  zod's default message \<^verbatim>\<open>Invalid enum value. Expected 'pending' | 'paid', received '...'\<close>.
  The claim as written, the custom message for every value outside the enum, fails at the
  string \<^verbatim>\<open>draft\<close>: the counterexample below.
\<close>

theorem invalid_status_message:
  assumes "FormData_get formData ''status'' \<noteq> Str ''pending''"
    and "FormData_get formData ''status'' \<noteq> Str ''paid''"
  shows "field_error (fst (createInvoice rt prevState formData w)) ''status'' =
           Some [case FormData_get formData ''status'' of
                   Str s \<Rightarrow>
                     ''Invalid enum value. Expected '' @ quoted ''pending'' @ '' | '' @
                     quoted ''paid'' @ '', received '' @ quoted s
                 | _ \<Rightarrow> ''Please select a valid status''] \<and>
         field_error (fst (updateInvoice rt id' prevState formData w)) ''status'' =
           Some [case FormData_get formData ''status'' of
                   Str s \<Rightarrow>
                     ''Invalid enum value. Expected '' @ quoted ''pending'' @ '' | '' @
                     quoted ''paid'' @ '', received '' @ quoted s
                 | _ \<Rightarrow> ''Please select a valid status'']"
proof -
  let ?v = "FormData_get formData ''status''"
  let ?m = "case ?v of
              Str s \<Rightarrow>
                ''Invalid enum value. Expected '' @ quoted ''pending'' @ '' | '' @
                quoted ''paid'' @ '', received '' @ quoted s
            | _ \<Rightarrow> ''Please select a valid status''"
  obtain c where c: "fst (parse_field (ZEnum [''pending'', ''paid'']
                       (Some ''Please select a valid status'')) ?v) = [(c, ?m)]"
    unfolding status_issues[OF assms FormData_get_defined] by (cases ?v) simp_all
  have f: "filter (\<lambda>i. issue_path i = ''status'') (field_issues CreateInvoice (submitted formData)) =
             [Issue c ''status'' ?m]"
    unfolding path_filter_status c by simp
  show ?thesis
    using field_error_of_failure[OF f] by simp
qed

theorem invalid_status_message_witness:
  "FormData_get [(''customerId'', Text ''c1''), (''amount'', Text ''12.34'')] ''status'' \<noteq> Str ''pending'' \<and>
   FormData_get [(''customerId'', Text ''c1''), (''amount'', Text ''12.34'')] ''status'' \<noteq> Str ''paid'' \<and>
   field_error (fst (createInvoice example_runtime no_state
       [(''customerId'', Text ''c1''), (''amount'', Text ''12.34'')] example_world)) ''status'' =
     Some [''Please select a valid status''] \<and>
   field_error (fst (updateInvoice example_runtime ''inv_1'' no_state
       [(''customerId'', Text ''c1''), (''amount'', Text ''12.34'')] example_world)) ''status'' =
     Some [''Please select a valid status'']"
proof -
  let ?fd = "[(''customerId'', Text ''c1''), (''amount'', Text ''12.34'')]"
  have v: "FormData_get ?fd ''status'' = Null"
    by (simp add: FormData_get_def)
  have h1: "FormData_get ?fd ''status'' \<noteq> Str ''pending''"
    and h2: "FormData_get ?fd ''status'' \<noteq> Str ''paid''"
    by (simp_all add: v)
  show ?thesis
    using h1 h2 invalid_status_message[OF h1 h2, of example_runtime no_state example_world "''inv_1''"]
    by (simp add: v)
qed

theorem unknown_status_string_counterexample:
  "FormData_get (example_form ''12.34'' ''draft'') ''status'' = Str ''draft'' \<and>
   ''draft'' \<notin> {''pending'', ''paid''} \<and>
   field_error (fst (createInvoice example_runtime no_state (example_form ''12.34'' ''draft'')
       example_world)) ''status'' =
     Some [''Invalid enum value. Expected '' @ quoted ''pending'' @ '' | '' @ quoted ''paid'' @
           '', received '' @ quoted ''draft''] \<and>
   ''Please select a valid status'' \<notin>
     set [''Invalid enum value. Expected '' @ quoted ''pending'' @ '' | '' @ quoted ''paid'' @
          '', received '' @ quoted ''draft'']"
proof -
  let ?fd = "example_form ''12.34'' ''draft''"
  have v: "FormData_get ?fd ''status'' = Str ''draft''"
    by (simp add: FormData_get_example_form)
  have f: "filter (\<lambda>i. issue_path i = ''status'') (field_issues CreateInvoice (submitted ?fd)) =
             [Issue invalid_enum_value ''status''
                (''Invalid enum value. Expected '' @ quoted ''pending'' @ '' | '' @
                 quoted ''paid'' @ '', received '' @ quoted ''draft'')]"
    unfolding path_filter_status v by (simp add: joinValues_status)
  have e: "field_error (fst (createInvoice example_runtime no_state ?fd example_world)) ''status'' =
     Some [''Invalid enum value. Expected '' @ quoted ''pending'' @ '' | '' @ quoted ''paid'' @
           '', received '' @ quoted ''draft'']"
    using field_error_of_failure(1)[OF f] by simp
  have n: "''Please select a valid status'' \<notin>
     set [''Invalid enum value. Expected '' @ quoted ''pending'' @ '' | '' @ quoted ''paid'' @
          '', received '' @ quoted ''draft'']"
    by (simp add: quoted_def)
  show ?thesis using v e n by simp
qed

subsection \<open>Rejected amounts\<close>

text \<open>
  Claim C3. When the amount field, after the coercion \<^verbatim>\<open>Number(...)\<close>, is less than or
  equal to zero, both \<^verbatim>\<open>createInvoice\<close> and \<^verbatim>\<open>updateInvoice\<close> return an \<^verbatim>\<open>errors\<close>
  object whose \<^verbatim>\<open>amount\<close> entry is the message \<^verbatim>\<open>Amount must be greater than 0\<close>. This
  covers input that is not a numeral but is coerced to zero, such as the empty string or
  a missing field.
\<close>

theorem nonpositive_amount_rejected:
  assumes "js_le (ToNumber (FormData_get formData ''amount'')) (Number 0)"
  shows "field_error (fst (createInvoice rt prevState formData w)) ''amount'' =
           Some [''Amount must be greater than 0''] \<and>
         field_error (fst (updateInvoice rt id' prevState formData w)) ''amount'' =
           Some [''Amount must be greater than 0'']"
proof -
  let ?issues = "field_issues CreateInvoice (submitted formData)"
  have amount: "filter (\<lambda>i. issue_path i = ''amount'') ?issues =
                  [Issue too_small ''amount'' ''Amount must be greater than 0'']"
    unfolding path_filter_amount amount_too_small_issues[OF assms] by simp
  then have "?issues \<noteq> []" by auto
  then have fail: "safeParse CreateInvoice (submitted formData) = Failure ?issues"
    by (rule safeParse_Failure)
  have "map_of (fieldErrors ?issues) ''amount'' = Some [''Amount must be greater than 0'']"
    by (simp add: map_of_fieldErrors amount)
  then show ?thesis
    by (simp add: createInvoice_Failure[OF fail] updateInvoice_Failure[OF fail])
qed

theorem nonpositive_amount_rejected_witness:
  "js_le (ToNumber (FormData_get (example_form '''' ''paid'') ''amount'')) (Number 0) \<and>
   field_error (fst (createInvoice example_runtime no_state (example_form '''' ''paid'') example_world))
     ''amount'' = Some [''Amount must be greater than 0''] \<and>
   field_error (fst (updateInvoice example_runtime ''inv_1'' no_state (example_form '''' ''paid'')
     example_world)) ''amount'' = Some [''Amount must be greater than 0'']"
proof -
  have h: "js_le (ToNumber (FormData_get (example_form '''' ''paid'') ''amount'')) (Number 0)"
    by (simp add: FormData_get_example_form StringToNumber_empty js_le_def)
  show ?thesis
    using h nonpositive_amount_rejected[OF h, of example_runtime no_state example_world "''inv_1''"]
    by simp
qed

subsection \<open>The delete action\<close>

text \<open>
  Claim C4. For every identifier, \<^verbatim>\<open>deleteInvoice\<close> raises an error with the message
  \<^verbatim>\<open>Faild to Delete\<close> and leaves the world as it was: the delete statement is never sent
  to the store, no path is invalidated, and every row of the table is unmodified.
\<close>

theorem deleteInvoice_always_throws:
  "deleteInvoice rt id' w = (Throw (Error ''Faild to Delete''), w)"
  by (simp add: deleteInvoice_def seq_def throw_def)

subsection \<open>Validation failures\<close>

text \<open>
  Claim C5. When at least one of the three fields fails its schema, \<^verbatim>\<open>createInvoice\<close> and
  \<^verbatim>\<open>updateInvoice\<close> return the same \<^verbatim>\<open>errors\<close> object, each with its own fixed message.
  The object has a key for a field exactly when that field fails, so every failing field
  is reported and the first failure does not hide the others; a missing \<^verbatim>\<open>customerId\<close>
  has the entry \<^verbatim>\<open>Please select a customer\<close>. The world is returned as it was: no
  statement is sent to the store and no row changes.
\<close>

theorem validation_failure_reports_every_field:
  assumes "\<exists>k. field_fails CreateInvoice (submitted formData) k"
  shows "\<exists>errs.
           createInvoice rt prevState formData w =
             (Return \<lparr>errors = Some errs,
                      message = Some ''Missing Fields. Failed to Create Invoice.''\<rparr>, w) \<and>
           updateInvoice rt id' prevState formData w =
             (Return \<lparr>errors = Some errs,
                      message = Some ''Missing Fields. Failed to Update Invoice.''\<rparr>, w) \<and>
           (\<forall>k. field_fails CreateInvoice (submitted formData) k \<longleftrightarrow> map_of errs k \<noteq> None) \<and>
           (FormData_get formData ''customerId'' = Null \<longrightarrow>
              map_of errs ''customerId'' = Some [''Please select a customer''])"
proof -
  let ?issues = "field_issues CreateInvoice (submitted formData)"
  from assms obtain k where "filter (\<lambda>i. issue_path i = k) ?issues \<noteq> []"
    by (auto simp add: field_fails_iff)
  then have "?issues \<noteq> []" by auto
  then have fail: "safeParse CreateInvoice (submitted formData) = Failure ?issues"
    by (rule safeParse_Failure)
  have keys: "\<forall>k. field_fails CreateInvoice (submitted formData) k \<longleftrightarrow>
                map_of (fieldErrors ?issues) k \<noteq> None"
    by (simp add: field_fails_iff map_of_fieldErrors)
  have customer: "FormData_get formData ''customerId'' = Null \<longrightarrow>
                    map_of (fieldErrors ?issues) ''customerId'' = Some [''Please select a customer'']"
  proof
    assume n: "FormData_get formData ''customerId'' = Null"
    have "filter (\<lambda>i. issue_path i = ''customerId'') ?issues =
            [Issue invalid_type ''customerId'' ''Please select a customer'']"
      unfolding path_filter_customerId n customerId_missing_issues by simp
    then show "map_of (fieldErrors ?issues) ''customerId'' = Some [''Please select a customer'']"
      by (simp add: map_of_fieldErrors)
  qed
  show ?thesis
    using createInvoice_Failure[OF fail] updateInvoice_Failure[OF fail] keys customer
    by blast
qed

theorem validation_failure_reports_every_field_witness:
  "(\<exists>k. field_fails CreateInvoice (submitted [(''status'', Text ''paid'')]) k) \<and>
   (\<exists>errs.
      createInvoice example_runtime no_state [(''status'', Text ''paid'')] example_world =
        (Return \<lparr>errors = Some errs,
                 message = Some ''Missing Fields. Failed to Create Invoice.''\<rparr>, example_world) \<and>
      updateInvoice example_runtime ''inv_1'' no_state [(''status'', Text ''paid'')] example_world =
        (Return \<lparr>errors = Some errs,
                 message = Some ''Missing Fields. Failed to Update Invoice.''\<rparr>, example_world) \<and>
      map_of errs ''customerId'' = Some [''Please select a customer''] \<and>
      map_of errs ''amount'' \<noteq> None \<and>
      map_of errs ''status'' = None)"
proof -
  let ?fd = "[(''status'', Text ''paid'')]"
  have g: "FormData_get ?fd ''customerId'' = Null" "FormData_get ?fd ''amount'' = Null"
    "FormData_get ?fd ''status'' = Str ''paid''"
    by (simp_all add: FormData_get_def)
  have c: "field_fails CreateInvoice (submitted ?fd) ''customerId''"
    by (simp add: field_fails_def CreateInvoice_shape property_submitted g invalid_type_message_def)
  have a: "field_fails CreateInvoice (submitted ?fd) ''amount''"
    by (simp add: field_fails_def CreateInvoice_shape property_submitted g js_le_def)
  have s: "\<not> field_fails CreateInvoice (submitted ?fd) ''status''"
    by (simp add: field_fails_def CreateInvoice_shape property_submitted g)
  have h: "\<exists>k. field_fails CreateInvoice (submitted ?fd) k"
    using c by blast
  from validation_failure_reports_every_field[OF h, of example_runtime no_state example_world "''inv_1''"]
  obtain errs where
    e: "createInvoice example_runtime no_state ?fd example_world =
          (Return \<lparr>errors = Some errs,
                   message = Some ''Missing Fields. Failed to Create Invoice.''\<rparr>, example_world)"
       "updateInvoice example_runtime ''inv_1'' no_state ?fd example_world =
          (Return \<lparr>errors = Some errs,
                   message = Some ''Missing Fields. Failed to Update Invoice.''\<rparr>, example_world)"
       "\<forall>k. field_fails CreateInvoice (submitted ?fd) k \<longleftrightarrow> map_of errs k \<noteq> None"
       "FormData_get ?fd ''customerId'' = Null \<longrightarrow>
          map_of errs ''customerId'' = Some [''Please select a customer'']"
    by blast
  have "map_of errs ''customerId'' = Some [''Please select a customer'']"
    using e(4) g(1) by simp
  moreover have "map_of errs ''amount'' \<noteq> None" using e(3) a by blast
  moreover have "map_of errs ''status'' = None" using e(3) s by blast
  ultimately show ?thesis using h e(1,2) by blast
qed

subsection \<open>A failing insert\<close>

text \<open>
  Claim C6. \<^verbatim>\<open>createInvoice\<close> sends a statement to the store only for a submission that
  passed validation. When the store refuses that statement, the action returns exactly
  \<^verbatim>\<open>{ message: 'Database error' }\<close>: it does not end in the redirect, the list of
  invalidated paths is unchanged, and so is the table; the error is written to the console.
\<close>

theorem insert_failure_returns_database_error:
  assumes "issued (snd (createInvoice rt prevState formData w)) = issued w @ [st]"
    and "store_error rt st (invoices w) = Some e"
  shows "createInvoice rt prevState formData w =
           (Return \<lparr>errors = None, message = Some ''Database error''\<rparr>,
            w\<lparr>issued := issued w @ [st], console := console w @ [DatabaseError e]\<rparr>)"
proof (cases rule: safeParse_cases[of formData])
  case (1 issues)
  then show ?thesis using assms(1) by (simp add: issued_createInvoice)
next
  case (2 data)
  then have "st = insert_statement rt data"
    using assms(1) by (simp add: issued_createInvoice)
  then show ?thesis
    using assms(2) by (simp add: createInvoice_Success[OF 2])
qed

theorem insert_failure_returns_database_error_witness:
  "issued (snd (createInvoice failing_runtime no_state (example_form ''12.34'' ''pending'')
       example_world)) =
     issued example_world @
       [INSERT_invoice (Str ''c1'') (Num (Number 1234)) (Str ''pending'') (Str ''2024-05-06'')] \<and>
   store_error failing_runtime
       (INSERT_invoice (Str ''c1'') (Num (Number 1234)) (Str ''pending'') (Str ''2024-05-06''))
       (invoices example_world) = Some ''connection lost'' \<and>
   fst (createInvoice failing_runtime no_state (example_form ''12.34'' ''pending'') example_world) =
     Return \<lparr>errors = None, message = Some ''Database error''\<rparr> \<and>
   revalidated (snd (createInvoice failing_runtime no_state (example_form ''12.34'' ''pending'')
       example_world)) = revalidated example_world \<and>
   invoices (snd (createInvoice failing_runtime no_state (example_form ''12.34'' ''pending'')
       example_world)) = invoices example_world"
proof -
  let ?st = "INSERT_invoice (Str ''c1'') (Num (Number 1234)) (Str ''pending'') (Str ''2024-05-06'')"
  have h1: "issued (snd (createInvoice failing_runtime no_state (example_form ''12.34'' ''pending'')
              example_world)) = issued example_world @ [?st]"
    by (simp add: createInvoice_example_refused)
  have h2: "store_error failing_runtime ?st (invoices example_world) = Some ''connection lost''"
    by (simp add: failing_runtime_def)
  show ?thesis
    using h1 h2 insert_failure_returns_database_error[OF h1 h2] by simp
qed

subsection \<open>The messages of the authenticator\<close>

text \<open>
  Claim C7, at an input where the code departs from it. When \<^verbatim>\<open>signIn\<close> raises an
  \<^verbatim>\<open>AuthError\<close> whose type is \<^verbatim>\<open>CallbackRouteError\<close>, a category other than invalid
  credentials, \<^verbatim>\<open>authenticate\<close> returns the misspelt message \<^verbatim>\<open>Someting went wrong\<close>, which
  is not the message \<^verbatim>\<open>Something went wrong\<close> of the claim.
\<close>

theorem authenticate_other_category_misspelt:
  "signIn example_runtime ''credentials'' [] example_world =
     (Throw (AuthError ''CallbackRouteError''), example_world) \<and>
   authenticate example_runtime None [] example_world =
     (Return (Some ''Someting went wrong''), example_world) \<and>
   ''Someting went wrong'' \<noteq> ''Something went wrong''"
  by (simp add: authenticate_result example_runtime_def throw_def)

subsection \<open>The frame of an update\<close>

text \<open>
  Claim C8. When \<^verbatim>\<open>updateInvoice\<close> has sent its statement (the submission was valid) and
  the store has accepted it, the table has the same rows in the same order; every row
  keeps its identifier and its date; a row with another identifier is unchanged; a row
  with the given identifier has the submitted customer id, the amount in cents and the
  submitted status. When the identifiers of the table are distinct, at most one row has
  changed.
\<close>

theorem update_touches_three_columns_of_matching_rows:
  assumes "issued (snd (updateInvoice rt id' prevState formData w)) = issued w @ [st]"
    and "store_error rt st (invoices w) = None"
    and "rows = invoices w"
    and "rows' = invoices (snd (updateInvoice rt id' prevState formData w))"
  shows "length rows' = length rows \<and>
         (\<forall>i < length rows.
            inv_id (rows' ! i) = inv_id (rows ! i) \<and>
            date (rows' ! i) = date (rows ! i) \<and>
            (inv_id (rows ! i) \<noteq> id' \<longrightarrow> rows' ! i = rows ! i) \<and>
            (inv_id (rows ! i) = id' \<longrightarrow>
               customer_id (rows' ! i) = FormData_get formData ''customerId'' \<and>
               amount (rows' ! i) =
                 Num (js_times (ToNumber (FormData_get formData ''amount'')) (Number 100)) \<and>
               status (rows' ! i) = FormData_get formData ''status'')) \<and>
         (distinct (map inv_id rows) \<longrightarrow>
            (\<forall>i < length rows. \<forall>j < length rows.
               rows' ! i \<noteq> rows ! i \<and> rows' ! j \<noteq> rows ! j \<longrightarrow> i = j))"
proof -
  have rows': "rows' =
      map (\<lambda>r. if inv_id r = id'
                then r\<lparr>customer_id := FormData_get formData ''customerId'',
                      amount := Num (js_times (ToNumber (FormData_get formData ''amount'')) (Number 100)),
                      status := FormData_get formData ''status''\<rparr>
                else r) rows"
    unfolding assms(3,4) by (rule invoices_updateInvoice_accepted[OF assms(1,2)])
  have len: "length rows' = length rows" by (simp add: rows')
  have cols: "\<forall>i < length rows.
            inv_id (rows' ! i) = inv_id (rows ! i) \<and>
            date (rows' ! i) = date (rows ! i) \<and>
            (inv_id (rows ! i) \<noteq> id' \<longrightarrow> rows' ! i = rows ! i) \<and>
            (inv_id (rows ! i) = id' \<longrightarrow>
               customer_id (rows' ! i) = FormData_get formData ''customerId'' \<and>
               amount (rows' ! i) =
                 Num (js_times (ToNumber (FormData_get formData ''amount'')) (Number 100)) \<and>
               status (rows' ! i) = FormData_get formData ''status'')"
    by (simp add: rows')
  have single: "distinct (map inv_id rows) \<longrightarrow>
            (\<forall>i < length rows. \<forall>j < length rows.
               rows' ! i \<noteq> rows ! i \<and> rows' ! j \<noteq> rows ! j \<longrightarrow> i = j)"
  proof (intro impI allI)
    fix i j
    assume d: "distinct (map inv_id rows)" and i: "i < length rows" and j: "j < length rows"
      and ne: "rows' ! i \<noteq> rows ! i \<and> rows' ! j \<noteq> rows ! j"
    have "inv_id (rows ! i) = id'" using cols i ne by blast
    moreover have "inv_id (rows ! j) = id'" using cols j ne by blast
    ultimately have e: "map inv_id rows ! i = map inv_id rows ! j" using i j by simp
    have "(map inv_id rows ! i = map inv_id rows ! j) = (i = j)"
      by (rule nth_eq_iff_index_eq) (use d i j in simp_all)
    with e show "i = j" by (simp only:)
  qed
  show ?thesis using len cols single by blast
qed

theorem update_touches_three_columns_of_matching_rows_witness:
  "issued (snd (updateInvoice example_runtime ''inv_1'' no_state (example_form ''12.34'' ''pending'')
       example_world)) =
     issued example_world @
       [UPDATE_invoice (Str ''c1'') (Num (Number 1234)) (Str ''pending'') ''inv_1''] \<and>
   store_error example_runtime
       (UPDATE_invoice (Str ''c1'') (Num (Number 1234)) (Str ''pending'') ''inv_1'')
       (invoices example_world) = None \<and>
   distinct (map inv_id (invoices example_world)) \<and>
   length (invoices (snd (updateInvoice example_runtime ''inv_1'' no_state
       (example_form ''12.34'' ''pending'') example_world))) = 1 \<and>
   date (invoices (snd (updateInvoice example_runtime ''inv_1'' no_state
       (example_form ''12.34'' ''pending'') example_world)) ! 0) = Str ''2023-01-02'' \<and>
   amount (invoices (snd (updateInvoice example_runtime ''inv_1'' no_state
       (example_form ''12.34'' ''pending'') example_world)) ! 0) = Num (Number 1234)"
proof -
  let ?st = "UPDATE_invoice (Str ''c1'') (Num (Number 1234)) (Str ''pending'') ''inv_1''"
  let ?w' = "snd (updateInvoice example_runtime ''inv_1'' no_state
               (example_form ''12.34'' ''pending'') example_world)"
  have h1: "issued ?w' = issued example_world @ [?st]"
    unfolding updateInvoice_example_accepted by (simp add: example_world_def)
  have h2: "store_error example_runtime ?st (invoices example_world) = None"
    by (simp add: example_runtime_def)
  have d: "distinct (map inv_id (invoices example_world))"
    by (simp add: example_world_def)
  have l: "length (invoices example_world) = 1" and i: "inv_id (invoices example_world ! 0) = ''inv_1''"
    and dt: "date (invoices example_world ! 0) = Str ''2023-01-02''"
    by (simp_all add: example_world_def)
  from update_touches_three_columns_of_matching_rows[OF h1 h2 refl refl]
  have "length (invoices ?w') = length (invoices example_world)"
    and "\<forall>i < length (invoices example_world).
            inv_id (invoices ?w' ! i) = inv_id (invoices example_world ! i) \<and>
            date (invoices ?w' ! i) = date (invoices example_world ! i) \<and>
            (inv_id (invoices example_world ! i) \<noteq> ''inv_1'' \<longrightarrow>
               invoices ?w' ! i = invoices example_world ! i) \<and>
            (inv_id (invoices example_world ! i) = ''inv_1'' \<longrightarrow>
               customer_id (invoices ?w' ! i) =
                 FormData_get (example_form ''12.34'' ''pending'') ''customerId'' \<and>
               amount (invoices ?w' ! i) =
                 Num (js_times (ToNumber (FormData_get (example_form ''12.34'' ''pending'') ''amount''))
                        (Number 100)) \<and>
               status (invoices ?w' ! i) =
                 FormData_get (example_form ''12.34'' ''pending'') ''status'')"
    by blast+
  then have "length (invoices ?w') = 1" and "date (invoices ?w' ! 0) = Str ''2023-01-02''"
    and "amount (invoices ?w' ! 0) = Num (Number 1234)"
    using l i dt
    by (simp_all add: FormData_get_example_form StringToNumber_12_34 times_100_12_34)
  then show ?thesis using h1 h2 d by simp
qed

subsection \<open>An update of an unknown identifier\<close>

text \<open>
  Claim C9. For validated fields, a store that accepts the statement and an identifier
  that no row has, \<^verbatim>\<open>updateInvoice\<close> takes the success path: the statement is sent, no row
  changes, the listing path is invalidated and the action ends in the redirect, with no
  error returned. The identifier is an arbitrary string; nothing in the action inspects it.
\<close>

theorem update_of_unknown_id_takes_success_path:
  assumes "safeParse UpdateInvoice (submitted formData) = Success data"
    and "store_error rt
           (UPDATE_invoice (FormData_get formData ''customerId'')
              (Num (js_times (ToNumber (FormData_get formData ''amount'')) (Number 100)))
              (FormData_get formData ''status'') id')
           (invoices w) = None"
    and "id' \<notin> inv_id ` set (invoices w)"
  shows "updateInvoice rt id' prevState formData w =
           (Throw (RedirectError ''/dashboard/invoices''),
            w\<lparr>issued := issued w @
                  [UPDATE_invoice (FormData_get formData ''customerId'')
                     (Num (js_times (ToNumber (FormData_get formData ''amount'')) (Number 100)))
                     (FormData_get formData ''status'') id'],
              revalidated := revalidated w @ [''/dashboard/invoices'']\<rparr>)"
proof -
  have ok: "safeParse CreateInvoice (submitted formData) = Success data"
    using assms(1) by (simp add: UpdateInvoice_shape)
  have same: "map (\<lambda>r. if inv_id r = id' then r\<lparr>customer_id := c, amount := a, status := s\<rparr> else r)
                (invoices w) = invoices w" for c a s
    using assms(3) by (intro map_idI) auto
  show ?thesis
    using assms(2)
    by (simp add: updateInvoice_Success[OF ok] update_statement_def Success_data[OF ok] same)
qed

theorem update_of_unknown_id_takes_success_path_witness:
  "safeParse UpdateInvoice (submitted (example_form ''12.34'' ''pending'')) =
     Success [(''customerId'', Str ''c1''),
              (''amount'', Num (Number (3473401212609495 / 281474976710656))),
              (''status'', Str ''pending'')] \<and>
   store_error example_runtime
     (UPDATE_invoice (Str ''c1'') (Num (Number 1234)) (Str ''pending'') ''inv_404'')
     (invoices example_world) = None \<and>
   ''inv_404'' \<notin> inv_id ` set (invoices example_world) \<and>
   updateInvoice example_runtime ''inv_404'' no_state (example_form ''12.34'' ''pending'')
       example_world =
     (Throw (RedirectError ''/dashboard/invoices''),
      example_world
        \<lparr>issued := [UPDATE_invoice (Str ''c1'') (Num (Number 1234)) (Str ''pending'') ''inv_404''],
         revalidated := [''/dashboard/invoices'']\<rparr>)"
proof -
  let ?fd = "example_form ''12.34'' ''pending''"
  have h1: "safeParse UpdateInvoice (submitted ?fd) =
              Success [(''customerId'', Str ''c1''),
                       (''amount'', Num (Number (3473401212609495 / 281474976710656))),
                       (''status'', Str ''pending'')]"
    by (simp add: UpdateInvoice_shape safeParse_example_12_34)
  have h2: "store_error example_runtime
              (UPDATE_invoice (FormData_get ?fd ''customerId'')
                 (Num (js_times (ToNumber (FormData_get ?fd ''amount'')) (Number 100)))
                 (FormData_get ?fd ''status'') ''inv_404'')
              (invoices example_world) = None"
    by (simp add: example_runtime_def)
  have h3: "''inv_404'' \<notin> inv_id ` set (invoices example_world)"
    by (simp add: example_world_def)
  have i: "issued example_world = []" "revalidated example_world = []"
    by (simp_all add: example_world_def)
  show ?thesis
    using h1 h2 h3 update_of_unknown_id_takes_success_path[OF h1 h2 h3, of no_state]
    by (simp add: FormData_get_example_form StringToNumber_12_34 times_100_12_34 i)
qed

subsection \<open>Fields that the create action ignores\<close>

text \<open>
  Claim C10. Two submissions that agree on what \<^verbatim>\<open>FormData.get\<close> returns for
  \<^verbatim>\<open>customerId\<close>, \<^verbatim>\<open>amount\<close> and \<^verbatim>\<open>status\<close> give the same result and the same world,
  whatever other entries they hold (an \<^verbatim>\<open>id\<close>, a \<^verbatim>\<open>date\<close>, later entries of the same
  names) and whatever the previous state is.
\<close>

theorem createInvoice_reads_only_three_fields:
  assumes "FormData_get formData ''customerId'' = FormData_get formData' ''customerId''"
    and "FormData_get formData ''amount'' = FormData_get formData' ''amount''"
    and "FormData_get formData ''status'' = FormData_get formData' ''status''"
  shows "createInvoice rt prevState formData w = createInvoice rt prevState' formData' w"
  unfolding createInvoice_def assms by (rule refl)

theorem createInvoice_reads_only_three_fields_witness:
  "FormData_get (example_form ''12.34'' ''pending'') ''customerId'' =
     FormData_get ((''id'', Text ''inv_1'') # (''date'', Text ''1999-12-31'') #
       example_form ''12.34'' ''pending'' @ [(''amount'', Text ''1'')]) ''customerId'' \<and>
   FormData_get (example_form ''12.34'' ''pending'') ''amount'' =
     FormData_get ((''id'', Text ''inv_1'') # (''date'', Text ''1999-12-31'') #
       example_form ''12.34'' ''pending'' @ [(''amount'', Text ''1'')]) ''amount'' \<and>
   FormData_get (example_form ''12.34'' ''pending'') ''status'' =
     FormData_get ((''id'', Text ''inv_1'') # (''date'', Text ''1999-12-31'') #
       example_form ''12.34'' ''pending'' @ [(''amount'', Text ''1'')]) ''status'' \<and>
   createInvoice example_runtime \<lparr>errors = None, message = Some ''earlier''\<rparr>
       ((''id'', Text ''inv_1'') # (''date'', Text ''1999-12-31'') #
        example_form ''12.34'' ''pending'' @ [(''amount'', Text ''1'')]) example_world =
     (Throw (RedirectError ''/dashboard/invoices''),
      \<lparr>invoices =
         [\<lparr>inv_id = ''inv_1'', customer_id = Str ''c0'', amount = Num (Number 500),
           status = Str ''paid'', date = Str ''2023-01-02''\<rparr>,
          \<lparr>inv_id = ''inv_2'', customer_id = Str ''c1'', amount = Num (Number 1234),
           status = Str ''pending'', date = Str ''2024-05-06''\<rparr>],
       issued = [INSERT_invoice (Str ''c1'') (Num (Number 1234)) (Str ''pending'') (Str ''2024-05-06'')],
       revalidated = [''/dashboard/invoices''], console = []\<rparr>)"
proof -
  let ?fd1 = "example_form ''12.34'' ''pending''"
  let ?fd2 = "(''id'', Text ''inv_1'') # (''date'', Text ''1999-12-31'') #
                example_form ''12.34'' ''pending'' @ [(''amount'', Text ''1'')]"
  have h1: "FormData_get ?fd1 ''customerId'' = FormData_get ?fd2 ''customerId''"
    and h2: "FormData_get ?fd1 ''amount'' = FormData_get ?fd2 ''amount''"
    and h3: "FormData_get ?fd1 ''status'' = FormData_get ?fd2 ''status''"
    by (simp_all add: FormData_get_def example_form_def)
  show ?thesis
    using h1 h2 h3
      createInvoice_reads_only_three_fields[OF h1 h2 h3, where rt = example_runtime
        and prevState = no_state
        and prevState' = "\<lparr>errors = None, message = Some ''earlier''\<rparr>"
        and w = example_world]
    by (simp add: createInvoice_example_accepted)
qed

end
